theory Spec2Isabelle
  imports Complex_Main
begin

section \<open>popperOptionsWithAutoOffset (src-ui/src/app/utils/popper-options.ts)\<close>

text \<open>
  The function decorates a Popper configuration: on a window narrower than 400 pixels it
  pushes an \<open>offset\<close> modifier onto \<open>config.modifiers\<close>; the modifier's callback pulls
  the popper left by the amount it would overflow the right edge (less a 10 pixel margin).

  The embedding follows the TypeScript line by line. What the code reads from its
  surroundings is explicit: the global \<open>window\<close>, the \<open>this\<close> binding, and a store of
  objects (DOM elements, configuration objects, modifier arrays) addressed by reference,
  since the function mutates the array in place, returns the reference it was given, and
  the callback keeps a reference to the DOM element.
\<close>

subsection \<open>Values\<close>

text \<open>
  A slot typed \<open>number\<close> holds, at run time, a double or \<open>undefined\<close> (a missing
  property, or the result of \<open>window?.innerWidth\<close> on a nullish \<open>window\<close>). The doubles
  are \<open>NaN\<close>, the two infinities, the negative zero, and the finite doubles: \<open>Fin x\<close> is
  the finite double whose value is the real \<open>x\<close> (\<open>Fin 0\<close> is the positive zero).
\<close>

datatype jsval = Undefined | NaN | PosInf | NegInf | NegZero | Fin real

subsection \<open>Rounding to a double\<close>

text \<open>
  The operators \<open>+\<close> and \<open>-\<close> return the exact result rounded to the nearest double,
  ties to the even significand (IEEE 754 binary64: 53 bits of significand, exponents
  from -1022 to 1023, subnormals with the spacing \<open>2^-1074\<close>).
\<close>

definition pow2 :: "int \<Rightarrow> real" where
  "pow2 k = (if 0 \<le> k then 2 ^ nat k else 1 / 2 ^ nat (- k))"

text \<open>
  The exponent of a positive real \<open>a\<close>: the \<open>e\<close> with \<open>2^e \<le> a < 2^(e+1)\<close>, kept
  between -1022 (below, the doubles are subnormal) and 1023. It is found by halving or
  doubling \<open>a\<close>.
\<close>

function exponent_up :: "real \<Rightarrow> int \<Rightarrow> int" where
  "exponent_up a e = (if a < 2 \<or> 1023 \<le> e then e else exponent_up (a / 2) (e + 1))"
  by pat_completeness auto
termination
  by (relation "measure (\<lambda>(a, e). nat (1023 - e))") auto

function exponent_down :: "real \<Rightarrow> int \<Rightarrow> int" where
  "exponent_down a e = (if 1 \<le> a \<or> e \<le> - 1022 then e else exponent_down (2 * a) (e - 1))"
  by pat_completeness auto
termination
  by (relation "measure (\<lambda>(a, e). nat (e + 1022))") auto

declare exponent_up.simps [simp del] exponent_down.simps [simp del]

definition exponent :: "real \<Rightarrow> int" where
  "exponent a = (if 1 \<le> a then exponent_up a 0 else exponent_down a 0)"

definition round_half_even :: "real \<Rightarrow> int" where
  "round_half_even z =
     (let f = \<lfloor>z\<rfloor> in
      if z - of_int f < 1 / 2 then f
      else if 1 / 2 < z - of_int f then f + 1
      else if even f then f else f + 1)"

text \<open>
  The double nearest to the exact result \<open>x\<close> of an addition of two doubles. A magnitude
  of at least \<open>2^1024 - 2^970\<close> (half a spacing above the largest double) rounds to an
  infinity; below it, \<open>x\<close> is rounded to a multiple of the spacing of the doubles around
  it. The exact sum of two doubles is a multiple of \<open>2^-1074\<close>, so it rounds to zero
  only when it is zero, and IEEE addition gives an exact zero sum the sign \<open>+\<close> (the sum
  of two negative zeros, which is the negative zero, is a case of \<open>js_add\<close>).
\<close>

definition round_double :: "real \<Rightarrow> jsval" where
  "round_double x =
     (if x = 0 then Fin 0
      else if 2 ^ 1024 - 2 ^ 970 \<le> \<bar>x\<bar> then (if 0 < x then PosInf else NegInf)
      else
        (let ulp = pow2 (exponent \<bar>x\<bar> - 52);
             y = of_int (round_half_even (\<bar>x\<bar> / ulp)) * ulp
         in Fin (if 0 < x then y else - y)))"

text \<open>\<open>Number.MAX_VALUE\<close>, the largest finite double.\<close>

definition MAX_VALUE :: real where
  "MAX_VALUE = 2 ^ 1024 - 2 ^ 971"

subsection \<open>The operators\<close>

text \<open>
  The operators of the code on such operands, as ECMAScript defines them: both operands
  are converted by ToNumber (\<open>undefined\<close> becomes \<open>NaN\<close>); \<open>+\<close> is Number::add (\<open>NaN\<close>
  is absorbing, opposite infinities give \<open>NaN\<close>, an infinity absorbs a finite operand, a
  zero is neutral, two finite operands give the rounded exact sum); \<open>x - y\<close> is
  \<open>x + (-y)\<close>; \<open><\<close> is false as soon as one operand is \<open>NaN\<close>, and the two zeros
  compare equal.
\<close>

fun js_add :: "jsval \<Rightarrow> jsval \<Rightarrow> jsval" where
  "js_add (Fin a) (Fin b) = round_double (a + b)"
| "js_add (Fin a) NegZero = Fin a"
| "js_add NegZero (Fin b) = Fin b"
| "js_add NegZero NegZero = NegZero"
| "js_add PosInf NegInf = NaN"
| "js_add NegInf PosInf = NaN"
| "js_add Undefined _ = NaN"
| "js_add _ Undefined = NaN"
| "js_add NaN _ = NaN"
| "js_add _ NaN = NaN"
| "js_add PosInf _ = PosInf"
| "js_add _ PosInf = PosInf"
| "js_add NegInf _ = NegInf"
| "js_add _ NegInf = NegInf"

fun js_neg :: "jsval \<Rightarrow> jsval" where
  "js_neg (Fin a) = (if a = 0 then NegZero else Fin (- a))"
| "js_neg NegZero = Fin 0"
| "js_neg PosInf = NegInf"
| "js_neg NegInf = PosInf"
| "js_neg _ = NaN"

definition js_sub :: "jsval \<Rightarrow> jsval \<Rightarrow> jsval" where
  "js_sub a b = js_add a (js_neg b)"

fun js_lt :: "jsval \<Rightarrow> jsval \<Rightarrow> bool" where
  "js_lt (Fin a) (Fin b) = (a < b)"
| "js_lt (Fin a) NegZero = (a < 0)"
| "js_lt NegZero (Fin b) = (0 < b)"
| "js_lt NegZero NegZero = False"
| "js_lt Undefined _ = False"
| "js_lt _ Undefined = False"
| "js_lt NaN _ = False"
| "js_lt _ NaN = False"
| "js_lt PosInf _ = False"
| "js_lt _ NegInf = False"
| "js_lt NegInf _ = True"
| "js_lt _ PosInf = True"

text \<open>
  The \<open>min\<close> of the specification's formula \<open>min(0, (W - 10) - (L + P))\<close>, read on
  doubles as \<open>Math.min\<close>: \<open>NaN\<close> when an argument is \<open>NaN\<close>, the smaller argument
  otherwise, the negative zero being smaller than the positive one. This definition is
  the specification's side of the comparison; the code does not call it.
\<close>

fun is_NaN :: "jsval \<Rightarrow> bool" where
  "is_NaN Undefined = True"
| "is_NaN NaN = True"
| "is_NaN _ = False"

definition spec_min :: "jsval \<Rightarrow> jsval \<Rightarrow> jsval" where
  "spec_min a b =
     (if is_NaN a \<or> is_NaN b then NaN
      else if js_lt b a then b
      else if js_lt a b then a
      else if a = NegZero then a else b)"

datatype js_error = ReferenceError | TypeError

subsection \<open>Objects and the store\<close>

type_synonym addr = nat

text \<open>The DOM element behind \<open>this['_nativeElement']\<close>: only \<open>offsetLeft\<close> is read.\<close>

record element =
  offsetLeft :: jsval

text \<open>
  The callback \<open>({ popper, reference, placement }) => ...\<close> is a closure over the two
  constants of the enclosing call: \<open>windowWidth\<close> (a value) and \<open>dropdownElement\<close> (a
  reference to the element, or nothing when \<open>this['_nativeElement']\<close> was undefined).
\<close>

datatype offset_closure = OffsetClosure jsval "addr option"

text \<open>
  A modifier entry \<open>{ name, options }\<close>. The entries a caller has put in the array
  beforehand are opaque to this code; the one pushed here is \<open>{ offset: <closure> }\<close>.
\<close>

datatype modifier_options = OtherOptions nat | Options offset_closure

record modifier =
  name :: string
  options :: modifier_options

text \<open>
  \<open>Partial<Options>\<close>: every property is optional, so \<open>modifiers\<close> is a reference to an
  array or is absent.
\<close>

record config =
  modifiers :: "addr option"

text \<open>
  The global \<open>window\<close>: an identifier that is not declared at all (outside a browser), one
  that is bound to \<open>null\<close> or \<open>undefined\<close>, or the window object with its \<open>innerWidth\<close>.
\<close>

datatype window_binding = Undeclared | Nullish | Window jsval

record world =
  window :: window_binding
  elements :: "addr \<Rightarrow> element"
  configs :: "addr \<Rightarrow> config"
  arrays :: "addr \<Rightarrow> modifier list"

text \<open>
  \<open>this\<close> of the call: undefined when the function is called unbound, else the object
  (the NgbDropdown) with its \<open>_nativeElement\<close> property, which may be undefined.
\<close>

datatype this_binding = ThisUndefined | ThisObject "addr option"

text \<open>The state Popper hands to the callback. A \<open>Rect\<close> has four numeric properties.\<close>

record rect =
  width :: jsval
  height :: jsval
  rect_x :: jsval
  rect_y :: jsval

record layout_state =
  popper :: rect
  reference :: rect
  placement :: string

subsection \<open>The code\<close>

text \<open>
  \<open>window?.innerWidth\<close>: optional chaining guards a nullish value, not an undeclared
  identifier, whose evaluation throws a ReferenceError.
\<close>

definition read_innerWidth :: "window_binding \<Rightarrow> js_error + jsval" where
  "read_innerWidth w =
     (case w of
        Undeclared \<Rightarrow> Inl ReferenceError
      | Nullish \<Rightarrow> Inr Undefined
      | Window innerWidth \<Rightarrow> Inr innerWidth)"

text \<open>\<open>Array.prototype.push\<close> with one argument, on the array at address \<open>a\<close>.\<close>

definition array_push :: "addr \<Rightarrow> modifier \<Rightarrow> world \<Rightarrow> world" where
  "array_push a m s = s\<lparr>arrays := (arrays s)(a := arrays s a @ [m])\<rparr>"

text \<open>
  The function. It returns its outcome (the reference \<open>config\<close>, or the error thrown)
  together with the store it leaves behind. Every throw happens before the push, so an
  error leaves the store as it was. The order of evaluation is the source's:
  \<open>window?.innerWidth\<close>, the comparison, \<open>this['_nativeElement']\<close> (a TypeError when
  \<open>this\<close> is undefined), \<open>config.modifiers.push\<close> (a TypeError when \<open>config.modifiers\<close>
  is undefined), \<open>return config\<close>.
\<close>

definition popperOptionsWithAutoOffset ::
  "this_binding \<Rightarrow> addr \<Rightarrow> world \<Rightarrow> (js_error + addr) \<times> world" where
  "popperOptionsWithAutoOffset this config s =
     (case read_innerWidth (window s) of
        Inl e \<Rightarrow> (Inl e, s)
      | Inr windowWidth \<Rightarrow>
          if js_lt windowWidth (Fin 400) then
            (case this of
               ThisUndefined \<Rightarrow> (Inl TypeError, s)
             | ThisObject dropdownElement \<Rightarrow>
                 (case modifiers (configs s config) of
                    None \<Rightarrow> (Inl TypeError, s)
                  | Some a \<Rightarrow>
                      (Inr config,
                       array_push a
                         \<lparr>name = ''offset'',
                          options = Options (OffsetClosure windowWidth dropdownElement)\<rparr> s)))
          else (Inr config, s))"

text \<open>
  The callback, applied to a layout state in the store of the moment it is called.
  \<open>dropdownElement.offsetLeft\<close> is read here, at layout time (a TypeError when the
  captured \<open>dropdownElement\<close> is undefined); \<open>windowWidth\<close> is the captured constant.
  The callback writes nothing: the store comes back as it went in.
\<close>

fun offset ::
  "offset_closure \<Rightarrow> layout_state \<Rightarrow> world \<Rightarrow> (js_error + jsval \<times> jsval) \<times> world" where
  "offset (OffsetClosure windowWidth dropdownElement) state s =
     (case dropdownElement of
        None \<Rightarrow> (Inl TypeError, s)
      | Some el \<Rightarrow>
          (let rightOverflow =
                 js_sub (js_sub windowWidth (Fin 10))
                        (js_add (offsetLeft (elements s el)) (width (popper state)))
           in (Inr (if js_lt rightOverflow (Fin 0) then rightOverflow else Fin 0, Fin 0), s)))"

subsection \<open>The surroundings of the code\<close>

text \<open>
  What a caller does with the result (as the unit tests do with
  \<open>result.modifiers[0].options.offset\<close>): the callback of the last entry of the
  configuration's modifier array, when that entry carries one.
\<close>

definition last_offset_fn :: "addr \<Rightarrow> world \<Rightarrow> offset_closure option" where
  "last_offset_fn config s =
     (case modifiers (configs s config) of
        None \<Rightarrow> None
      | Some a \<Rightarrow>
          (case arrays s a of
             [] \<Rightarrow> None
           | m # ms \<Rightarrow>
               (case options (last (m # ms)) of
                  OtherOptions _ \<Rightarrow> None
                | Options f \<Rightarrow> Some f)))"

text \<open>
  Popper calls the callback once per layout pass: a sequence of calls, each in the store
  the previous one left, collecting the outcomes.
\<close>

fun layout_passes ::
  "offset_closure \<Rightarrow> layout_state list \<Rightarrow> world \<Rightarrow> (js_error + jsval \<times> jsval) list \<times> world" where
  "layout_passes f [] s = ([], s)"
| "layout_passes f (state # states) s =
     (case offset f state s of
        (r, s1) \<Rightarrow> (case layout_passes f states s1 of (rs, s2) \<Rightarrow> (r # rs, s2)))"

text \<open>
  What can happen between the call of the function and a layout pass: the page is laid
  out again (the element moves) or the window is resized.
\<close>

definition set_offsetLeft :: "addr \<Rightarrow> jsval \<Rightarrow> world \<Rightarrow> world" where
  "set_offsetLeft el v s = s\<lparr>elements := (elements s)(el := (elements s el)\<lparr>offsetLeft := v\<rparr>)\<rparr>"

definition set_innerWidth :: "jsval \<Rightarrow> world \<Rightarrow> world" where
  "set_innerWidth v s = s\<lparr>window := Window v\<rparr>"

text \<open>
  The set-up of the unit tests: \<open>window.innerWidth = w\<close>, a mock element with
  \<open>offsetLeft = 100\<close>, and \<open>config = { modifiers: [] }\<close>. The element, the configuration
  and its array are at address 0.
\<close>

definition test_world :: "real \<Rightarrow> world" where
  "test_world w =
     \<lparr>window = Window (Fin w),
      elements = (\<lambda>_. \<lparr>offsetLeft = Fin 100\<rparr>),
      configs = (\<lambda>_. \<lparr>modifiers = Some 0\<rparr>),
      arrays = (\<lambda>_. [])\<rparr>"

definition test_state :: "real \<Rightarrow> layout_state" where
  "test_state w =
     \<lparr>popper = \<lparr>width = Fin w, height = Undefined, rect_x = Undefined, rect_y = Undefined\<rparr>,
      reference = \<lparr>width = Undefined, height = Undefined, rect_x = Undefined, rect_y = Undefined\<rparr>,
      placement = ''bottom''\<rparr>"

subsection \<open>The two branches\<close>

lemma narrow_branch:
  assumes "window s = Window w" and "js_lt w (Fin 400)"
    and "modifiers (configs s config) = Some a"
  shows "popperOptionsWithAutoOffset (ThisObject d) config s =
           (Inr config,
            array_push a \<lparr>name = ''offset'', options = Options (OffsetClosure w d)\<rparr> s)"
  using assms by (simp add: popperOptionsWithAutoOffset_def read_innerWidth_def)

lemma wide_branch:
  assumes "read_innerWidth (window s) = Inr w" and "\<not> js_lt w (Fin 400)"
  shows "popperOptionsWithAutoOffset this config s = (Inr config, s)"
  using assms by (simp add: popperOptionsWithAutoOffset_def)

lemma narrow_last_offset_fn:
  assumes "window s = Window w" and "js_lt w (Fin 400)"
    and "modifiers (configs s config) = Some a"
  shows "last_offset_fn config (snd (popperOptionsWithAutoOffset (ThisObject d) config s)) =
           Some (OffsetClosure w d)"
proof -
  have "arrays s a @ [m] = x # xs \<Longrightarrow> last (x # xs) = m" for m :: modifier and x xs
    by (metis last_snoc)
  then show ?thesis
    using assms
    by (simp add: narrow_branch [OF assms] last_offset_fn_def array_push_def
        split: list.split)
qed

lemma offset_store: "snd (offset f state s) = s"
  by (cases f) (simp add: Let_def split: option.split)

lemma narrow_test_world:
  "popperOptionsWithAutoOffset (ThisObject (Some 0)) 0 (test_world 300) =
     (Inr 0,
      array_push 0 \<lparr>name = ''offset'', options = Options (OffsetClosure (Fin 300) (Some 0))\<rparr>
        (test_world 300))"
  by (rule narrow_branch) (simp_all add: test_world_def)

subsection \<open>The arithmetic of the callback\<close>

lemmas double_eval =
  round_double_def exponent_def exponent_up.simps exponent_down.simps pow2_def
  round_half_even_def js_sub_def Let_def

text \<open>A finite double, or an infinity: the values on which \<open><\<close> is the numeric order.\<close>

fun ordered :: "jsval \<Rightarrow> bool" where
  "ordered (Fin _) = True"
| "ordered PosInf = True"
| "ordered NegInf = True"
| "ordered _ = False"

lemma round_double_ordered: "ordered (round_double x)"
  by (simp add: round_double_def Let_def)

lemma round_double_finite:
  "\<bar>x\<bar> < 2 ^ 1024 - 2 ^ 970 \<Longrightarrow> \<exists>y. round_double x = Fin y"
  by (simp add: round_double_def Let_def)

lemma width_minus_margin:
  assumes "W < 400" and "- MAX_VALUE \<le> W"
  shows "\<exists>y. js_sub (Fin W) (Fin 10) = Fin y"
proof -
  have "(10::real) < 2 ^ 970"
    by simp
  then have "\<bar>W + - 10\<bar> < 2 ^ 1024 - 2 ^ 970"
    using assms by (simp add: MAX_VALUE_def abs_less_iff)
  then show ?thesis
    using round_double_finite [of "W + - 10"] by (simp add: js_sub_def)
qed

lemma finite_minus_ordered:
  assumes "ordered b"
  shows "ordered (js_sub (Fin y) b)"
  using assms by (cases b) (simp_all add: js_sub_def round_double_ordered)

lemma ordered_min:
  assumes "ordered r"
  shows "(if js_lt r (Fin 0) then r else Fin 0) = spec_min (Fin 0) r"
  using assms by (cases r) (auto simp add: spec_min_def)

lemma offset_spec_min:
  assumes "W < 400" and "- MAX_VALUE \<le> W"
    and "offsetLeft (elements s el) = Fin L" and "width (popper state) = Fin P"
  shows "fst (offset (OffsetClosure (Fin W) (Some el)) state s) =
           Inr (spec_min (Fin 0) (js_sub (js_sub (Fin W) (Fin 10)) (js_add (Fin L) (Fin P))),
                Fin 0)"
proof -
  obtain y where y: "js_sub (Fin W) (Fin 10) = Fin y"
    using width_minus_margin [OF assms(1,2)] by blast
  have "ordered (js_sub (Fin y) (js_add (Fin L) (Fin P)))"
    by (rule finite_minus_ordered) (simp add: round_double_ordered)
  then have "(if js_lt (js_sub (Fin y) (js_add (Fin L) (Fin P))) (Fin 0)
              then js_sub (Fin y) (js_add (Fin L) (Fin P)) else Fin 0) =
             spec_min (Fin 0) (js_sub (Fin y) (js_add (Fin L) (Fin P)))"
    by (rule ordered_min)
  then show ?thesis
    using assms(3,4) by (simp add: Let_def y del: js_add.simps)
qed

subsection \<open>The offset the callback returns\<close>

text \<open>
  C1. On a window of width \<open>W < 400\<close>, the callback that the function has pushed, called
  with a popper of width \<open>P\<close> while the element's left offset is \<open>L\<close>, returns the pair
  \<open>[min(0, (W - 10) - (L + P)), 0]\<close>, the formula being computed on doubles as the code
  computes it. \<open>W\<close>, \<open>L\<close> and \<open>P\<close> are finite numbers (\<open>W\<close> is not below
  \<open>-Number.MAX_VALUE\<close>, as no finite double is); the store at layout time is any store
  in which the element has left offset \<open>L\<close>.
\<close>

theorem offset_is_min_overflow:
  assumes "window s = Window (Fin W)" and "W < 400" and "- MAX_VALUE \<le> W"
    and "modifiers (configs s config) = Some a"
    and "offsetLeft (elements s1 el) = Fin L" and "width (popper state) = Fin P"
  shows "last_offset_fn config
           (snd (popperOptionsWithAutoOffset (ThisObject (Some el)) config s)) =
           Some (OffsetClosure (Fin W) (Some el)) \<and>
         fst (offset (OffsetClosure (Fin W) (Some el)) state s1) =
           Inr (spec_min (Fin 0) (js_sub (js_sub (Fin W) (Fin 10)) (js_add (Fin L) (Fin P))),
                Fin 0)"
proof
  have lt: "js_lt (Fin W) (Fin 400)"
    using assms(2) by simp
  show "last_offset_fn config
      (snd (popperOptionsWithAutoOffset (ThisObject (Some el)) config s)) =
      Some (OffsetClosure (Fin W) (Some el))"
    by (rule narrow_last_offset_fn [OF assms(1) lt assms(4)])
  show "fst (offset (OffsetClosure (Fin W) (Some el)) state s1) =
      Inr (spec_min (Fin 0) (js_sub (js_sub (Fin W) (Fin 10)) (js_add (Fin L) (Fin P))),
           Fin 0)"
    by (rule offset_spec_min [OF assms(2,3,5,6)])
qed

text \<open>
  On a window of width 300 with the element at 100: the two scenarios of the unit tests
  (a popper of width 250 is pulled left by 60, a popper of width 100 is left alone), and
  a popper whose width is the double nearest to 250.1, \<open>8799611459416883 / 2^45\<close>: the
  sum \<open>100 + P\<close> is a tie and rounds up to \<open>3079512167075021 / 2^43\<close>, and the shift is
  \<open>-528645190634701 / 2^43\<close>, the double that prints as \<open>-60.10000000000002\<close>.
\<close>

theorem offset_is_min_overflow_witness:
  "last_offset_fn 0 (snd (popperOptionsWithAutoOffset (ThisObject (Some 0)) 0 (test_world 300))) =
     Some (OffsetClosure (Fin 300) (Some 0)) \<and>
   fst (offset (OffsetClosure (Fin 300) (Some 0)) (test_state 250)
          (snd (popperOptionsWithAutoOffset (ThisObject (Some 0)) 0 (test_world 300)))) =
     Inr (Fin (- 60), Fin 0) \<and>
   fst (offset (OffsetClosure (Fin 300) (Some 0)) (test_state 100)
          (snd (popperOptionsWithAutoOffset (ThisObject (Some 0)) 0 (test_world 300)))) =
     Inr (Fin 0, Fin 0) \<and>
   fst (offset (OffsetClosure (Fin 300) (Some 0)) (test_state (8799611459416883 / 2 ^ 45))
          (snd (popperOptionsWithAutoOffset (ThisObject (Some 0)) 0 (test_world 300)))) =
     Inr (Fin (- (528645190634701 / 2 ^ 43)), Fin 0)"
  using
    offset_is_min_overflow [of "test_world 300" 300 0 0
      "snd (popperOptionsWithAutoOffset (ThisObject (Some 0)) 0 (test_world 300))" 0 100
      "test_state 250" 250]
    offset_is_min_overflow [of "test_world 300" 300 0 0
      "snd (popperOptionsWithAutoOffset (ThisObject (Some 0)) 0 (test_world 300))" 0 100
      "test_state 100" 100]
    offset_is_min_overflow [of "test_world 300" 300 0 0
      "snd (popperOptionsWithAutoOffset (ThisObject (Some 0)) 0 (test_world 300))" 0 100
      "test_state (8799611459416883 / 2 ^ 45)" "8799611459416883 / 2 ^ 45"]
  by (simp add: narrow_test_world del: offset.simps js_add.simps)
     (simp add: test_world_def test_state_def array_push_def MAX_VALUE_def spec_min_def
        double_eval)

subsection \<open>The threshold\<close>

text \<open>
  C2. On a window of width \<open>W \<ge> 400\<close> the function returns the reference it was given
  and leaves the store as it was: nothing is pushed, and every array keeps its length.
  The threshold is strict: at width 399 one entry is pushed, at width 400 none.
\<close>

theorem wide_window_passthrough:
  "(window s = Window (Fin W) \<and> 400 \<le> W \<longrightarrow>
      popperOptionsWithAutoOffset this config s = (Inr config, s)) \<and>
   (window s = Window (Fin 399) \<and> modifiers (configs s config) = Some a \<longrightarrow>
      length (arrays (snd (popperOptionsWithAutoOffset (ThisObject d) config s)) a) =
        length (arrays s a) + 1) \<and>
   (window s = Window (Fin 400) \<longrightarrow>
      length (arrays (snd (popperOptionsWithAutoOffset this config s)) a) =
        length (arrays s a))"
proof (intro conjI impI)
  assume "window s = Window (Fin W) \<and> 400 \<le> W"
  then show "popperOptionsWithAutoOffset this config s = (Inr config, s)"
    by (intro wide_branch [of s "Fin W"]) (simp_all add: read_innerWidth_def)
next
  assume h: "window s = Window (Fin 399) \<and> modifiers (configs s config) = Some a"
  then have "popperOptionsWithAutoOffset (ThisObject d) config s =
      (Inr config,
       array_push a \<lparr>name = ''offset'', options = Options (OffsetClosure (Fin 399) d)\<rparr> s)"
    by (intro narrow_branch) simp_all
  then show "length (arrays (snd (popperOptionsWithAutoOffset (ThisObject d) config s)) a) =
      length (arrays s a) + 1"
    by (simp add: array_push_def)
next
  assume "window s = Window (Fin 400)"
  then have "popperOptionsWithAutoOffset this config s = (Inr config, s)"
    by (intro wide_branch [of s "Fin 400"]) (simp_all add: read_innerWidth_def)
  then show "length (arrays (snd (popperOptionsWithAutoOffset this config s)) a) =
      length (arrays s a)"
    by simp
qed

text \<open>
  The first unit test (width 400, \<open>modifiers\<close> stays empty) and the boundary: width 399
  gives one entry.
\<close>

theorem wide_window_passthrough_witness:
  "popperOptionsWithAutoOffset (ThisObject (Some 0)) 0 (test_world 400) =
     (Inr 0, test_world 400) \<and>
   length (arrays (snd (popperOptionsWithAutoOffset (ThisObject (Some 0)) 0 (test_world 400))) 0) = 0 \<and>
   length (arrays (snd (popperOptionsWithAutoOffset (ThisObject (Some 0)) 0 (test_world 399))) 0) = 1"
  using
    wide_window_passthrough [of "test_world 400" 400 "ThisObject (Some 0)" 0 0 "Some 0"]
    wide_window_passthrough [of "test_world 399" 399 "ThisObject (Some 0)" 0 0 "Some 0"]
  by (simp add: test_world_def)

text \<open>
  C3. On a window of width \<open>W < 400\<close>, for a configuration that has a modifiers array,
  the function pushes exactly one entry onto that array, the entry's name is
  \<open>offset\<close>, and the array is one longer than before. No other array changes.
\<close>

theorem narrow_window_appends_offset:
  assumes "window s = Window (Fin W)" and "W < 400"
    and "modifiers (configs s config) = Some a"
  shows "(\<exists>m. arrays (snd (popperOptionsWithAutoOffset (ThisObject d) config s)) a =
              arrays s a @ [m] \<and> name m = ''offset'') \<and>
         length (arrays (snd (popperOptionsWithAutoOffset (ThisObject d) config s)) a) =
           length (arrays s a) + 1 \<and>
         (\<forall>b. b \<noteq> a \<longrightarrow>
            arrays (snd (popperOptionsWithAutoOffset (ThisObject d) config s)) b = arrays s b)"
proof -
  have lt: "js_lt (Fin W) (Fin 400)"
    using assms(2) by simp
  have "popperOptionsWithAutoOffset (ThisObject d) config s =
      (Inr config,
       array_push a \<lparr>name = ''offset'', options = Options (OffsetClosure (Fin W) d)\<rparr> s)"
    by (rule narrow_branch [OF assms(1) lt assms(3)])
  then show ?thesis
    by (simp add: array_push_def)
qed

theorem narrow_window_appends_offset_witness:
  "arrays (snd (popperOptionsWithAutoOffset (ThisObject (Some 0)) 0 (test_world 300))) 0 =
     [\<lparr>name = ''offset'', options = Options (OffsetClosure (Fin 300) (Some 0))\<rparr>] \<and>
   length (arrays (snd (popperOptionsWithAutoOffset (ThisObject (Some 0)) 0 (test_world 300))) 0) =
     length (arrays (test_world 300) 0) + 1"
  using narrow_window_appends_offset [of "test_world 300" 300 0 0 "Some 0"]
  by (simp add: narrow_test_world) (simp add: test_world_def array_push_def)

subsection \<open>What the callback captures, and what it reads when it is called\<close>

lemma offset_reads:
  assumes "offsetLeft (elements s1 el) = offsetLeft (elements s2 el)"
  shows "fst (offset (OffsetClosure w (Some el)) state s1) =
         fst (offset (OffsetClosure w (Some el)) state s2)"
  using assms by (simp add: Let_def)

text \<open>
  C4, as the code has it. On a window of width below 400 the callback holds the width
  read at the call, and a reference to the element: the width is not read again, the
  element's \<open>offsetLeft\<close> is read at every layout pass. So two calls with the same
  layout state, in any two stores in which the element has the same \<open>offsetLeft\<close>,
  return the same outcome, whatever the window's width has become; in particular a
  resize between the call of the function and the layout pass changes nothing.
\<close>

theorem captured_width_read_offsetLeft:
  assumes "window s = Window w" and "js_lt w (Fin 400)"
    and "modifiers (configs s config) = Some a"
    and "last_offset_fn config
           (snd (popperOptionsWithAutoOffset (ThisObject (Some el)) config s)) = Some f"
    and "offsetLeft (elements s1 el) = offsetLeft (elements s2 el)"
  shows "fst (offset f state s1) = fst (offset f state s2) \<and>
         fst (offset f state (set_innerWidth v s1)) = fst (offset f state s1)"
proof -
  have f: "f = OffsetClosure w (Some el)"
    using narrow_last_offset_fn [OF assms(1,2,3), of "Some el"] assms(4) by simp
  have "fst (offset (OffsetClosure w (Some el)) state (set_innerWidth v s1)) =
      fst (offset (OffsetClosure w (Some el)) state s1)"
    by (rule offset_reads) (simp add: set_innerWidth_def)
  with offset_reads [OF assms(5)] show ?thesis
    unfolding f by simp
qed

text \<open>
  On the window of width 300, the callback called after the window has grown to 1000
  still pulls a popper of width 250 left by 60.
\<close>

theorem captured_width_read_offsetLeft_witness:
  "fst (offset (OffsetClosure (Fin 300) (Some 0)) (test_state 250)
          (set_innerWidth (Fin 1000)
             (snd (popperOptionsWithAutoOffset (ThisObject (Some 0)) 0 (test_world 300))))) =
     Inr (Fin (- 60), Fin 0)"
  using
    captured_width_read_offsetLeft [of "test_world 300" "Fin 300" 0 0 0
      "OffsetClosure (Fin 300) (Some 0)"
      "snd (popperOptionsWithAutoOffset (ThisObject (Some 0)) 0 (test_world 300))"
      "snd (popperOptionsWithAutoOffset (ThisObject (Some 0)) 0 (test_world 300))"
      "test_state 250" "Fin 1000"]
  by (simp add: narrow_test_world last_offset_fn_def del: offset.simps)
     (simp add: test_world_def test_state_def array_push_def double_eval)

text \<open>
  The claim as the specification states it (the left offset too is fixed at the call)
  fails: the function is called on the window of width 300 with the element at 100; the
  callback it has pushed pulls a popper of width 250 left by 60; once the element has
  moved to 0, the same callback, called with the same layout state, returns no shift.
\<close>

theorem offsetLeft_read_at_layout_counterexample:
  "last_offset_fn 0 (snd (popperOptionsWithAutoOffset (ThisObject (Some 0)) 0 (test_world 300))) =
     Some (OffsetClosure (Fin 300) (Some 0)) \<and>
   fst (offset (OffsetClosure (Fin 300) (Some 0)) (test_state 250)
          (snd (popperOptionsWithAutoOffset (ThisObject (Some 0)) 0 (test_world 300)))) =
     Inr (Fin (- 60), Fin 0) \<and>
   fst (offset (OffsetClosure (Fin 300) (Some 0)) (test_state 250)
          (set_offsetLeft 0 (Fin 0)
             (snd (popperOptionsWithAutoOffset (ThisObject (Some 0)) 0 (test_world 300))))) =
     Inr (Fin 0, Fin 0) \<and>
   fst (offset (OffsetClosure (Fin 300) (Some 0)) (test_state 250)
          (snd (popperOptionsWithAutoOffset (ThisObject (Some 0)) 0 (test_world 300)))) \<noteq>
   fst (offset (OffsetClosure (Fin 300) (Some 0)) (test_state 250)
          (set_offsetLeft 0 (Fin 0)
             (snd (popperOptionsWithAutoOffset (ThisObject (Some 0)) 0 (test_world 300)))))"
  by (simp add: narrow_test_world last_offset_fn_def del: offset.simps)
     (simp add: test_world_def test_state_def array_push_def set_offsetLeft_def double_eval)

subsection \<open>The frame of the call\<close>

text \<open>
  C5. A call pushes at most one entry and writes no entry that was there: every array
  is at most one longer than before, every index below its old length holds the entry it
  held, only the array of the configuration can change, the configuration objects are as
  before, and a call that returns, returns the reference it was given.
\<close>

theorem appends_only:
  "length (arrays (snd (popperOptionsWithAutoOffset this config s)) a) \<le> length (arrays s a) + 1 \<and>
   (\<forall>i. i < length (arrays s a) \<longrightarrow>
      arrays (snd (popperOptionsWithAutoOffset this config s)) a ! i = arrays s a ! i) \<and>
   (modifiers (configs s config) \<noteq> Some a \<longrightarrow>
      arrays (snd (popperOptionsWithAutoOffset this config s)) a = arrays s a) \<and>
   configs (snd (popperOptionsWithAutoOffset this config s)) = configs s \<and>
   (\<forall>r. fst (popperOptionsWithAutoOffset this config s) = Inr r \<longrightarrow> r = config)"
  by (auto simp add: popperOptionsWithAutoOffset_def array_push_def nth_append
      split: sum.split this_binding.split option.split)

text \<open>
  A configuration that comes with one modifier: on the window of width 300 the call
  returns its reference, the entry stays at index 0, and the array has two entries.
\<close>

theorem appends_only_witness:
  "fst (popperOptionsWithAutoOffset (ThisObject (Some 0)) 0
          (array_push 0 \<lparr>name = ''flip'', options = OtherOptions 0\<rparr> (test_world 300))) = Inr 0 \<and>
   arrays (snd (popperOptionsWithAutoOffset (ThisObject (Some 0)) 0
          (array_push 0 \<lparr>name = ''flip'', options = OtherOptions 0\<rparr> (test_world 300)))) 0 ! 0 =
     \<lparr>name = ''flip'', options = OtherOptions 0\<rparr> \<and>
   length (arrays (snd (popperOptionsWithAutoOffset (ThisObject (Some 0)) 0
          (array_push 0 \<lparr>name = ''flip'', options = OtherOptions 0\<rparr> (test_world 300)))) 0) = 2"
  using
    appends_only [of "ThisObject (Some 0)" 0
      "array_push 0 \<lparr>name = ''flip'', options = OtherOptions 0\<rparr> (test_world 300)" 0]
  by (simp add: popperOptionsWithAutoOffset_def read_innerWidth_def test_world_def
      array_push_def)

subsection \<open>The callback as a function of its argument\<close>

lemma offset_pair: "offset f state s = (fst (offset f state s), s)"
  using offset_store [of f state s] by (simp add: prod_eq_iff)

text \<open>
  C6. The callback does not look at \<open>reference\<close> or \<open>placement\<close>: replacing them in
  the layout state changes nothing, and two layout states with the same \<open>popper\<close> give
  the same outcome. The second component of a pair it returns is 0.
\<close>

theorem offset_ignores_reference_placement:
  "offset f (state\<lparr>reference := r, placement := p\<rparr>) s = offset f state s \<and>
   (popper state_a = popper state_b \<longrightarrow> offset f state_a s = offset f state_b s) \<and>
   (\<forall>dx dy. fst (offset f state s) = Inr (dx, dy) \<longrightarrow> dy = Fin 0)"
  by (cases f) (auto simp add: Let_def split: option.split)

theorem offset_ignores_reference_placement_witness:
  "offset (OffsetClosure (Fin 300) (Some 0))
     ((test_state 250)\<lparr>reference := popper (test_state 40), placement := ''top-end''\<rparr>)
     (test_world 300) =
   offset (OffsetClosure (Fin 300) (Some 0)) (test_state 250) (test_world 300) \<and>
   fst (offset (OffsetClosure (Fin 300) (Some 0)) (test_state 250) (test_world 300)) =
     Inr (Fin (- 60), Fin 0)"
  using
    offset_ignores_reference_placement [where f = "OffsetClosure (Fin 300) (Some 0)"
      and state = "test_state 250" and r = "popper (test_state 40)" and p = "''top-end''"
      and s = "test_world 300" and state_a = "test_state 250" and state_b = "test_state 250"]
  by (simp add: test_world_def test_state_def double_eval)

text \<open>
  C7. The callback is a function of its layout state and of the store, and it writes
  nothing: a call leaves the store as it found it, so in any sequence of calls every
  call returns what a single call in the first store returns, and the store after the
  sequence is the first store. Calls with the same layout state return the same outcome,
  however many they are and in whatever order they come.
\<close>

theorem offset_pure:
  "snd (offset f state s) = s \<and>
   layout_passes f states s = (map (\<lambda>state. fst (offset f state s)) states, s) \<and>
   fst (layout_passes f (replicate n state) s) = replicate n (fst (offset f state s))"
proof -
  have passes: "layout_passes f sts s = (map (\<lambda>state. fst (offset f state s)) sts, s)" for sts
  proof (induction sts)
    case Nil
    show ?case by simp
  next
    case (Cons st sts)
    have "layout_passes f (st # sts) s =
        (case (fst (offset f st s), s) of
           (r, s1) \<Rightarrow> (case layout_passes f sts s1 of (rs, s2) \<Rightarrow> (r # rs, s2)))"
      using offset_pair [of f st s] by simp
    then show ?case
      using Cons.IH by simp
  qed
  show ?thesis
    by (simp add: offset_store passes [of "replicate n state"] passes [of states])
qed

text \<open>
  Three layout passes after the call on the window of width 300: the first and the
  third, with the same layout state, return the same pair, and the store (with the
  configuration and its array) is the one the call left.
\<close>

theorem offset_pure_witness:
  "layout_passes (OffsetClosure (Fin 300) (Some 0))
     [test_state 250, test_state 100, test_state 250]
     (snd (popperOptionsWithAutoOffset (ThisObject (Some 0)) 0 (test_world 300))) =
   ([Inr (Fin (- 60), Fin 0), Inr (Fin 0, Fin 0), Inr (Fin (- 60), Fin 0)],
    snd (popperOptionsWithAutoOffset (ThisObject (Some 0)) 0 (test_world 300)))"
  using
    offset_pure [of "OffsetClosure (Fin 300) (Some 0)" "test_state 250"
      "snd (popperOptionsWithAutoOffset (ThisObject (Some 0)) 0 (test_world 300))"
      "[test_state 250, test_state 100, test_state 250]" 0]
  by (simp add: narrow_test_world del: offset.simps)
     (simp add: test_world_def test_state_def array_push_def double_eval)

subsection \<open>Errors\<close>

text \<open>
  Where a number is missing or is \<open>NaN\<close>, the overflow is \<open>NaN\<close>, the comparison
  \<open>rightOverflow < 0\<close> is false, and the callback returns no shift.
\<close>

lemma offset_not_a_number:
  assumes "offsetLeft (elements s el) \<in> {Undefined, NaN} \<or>
           width (popper state) \<in> {Undefined, NaN}"
  shows "fst (offset (OffsetClosure w (Some el)) state s) = Inr (Fin 0, Fin 0)"
proof -
  have "js_add (offsetLeft (elements s el)) (width (popper state)) = NaN"
    using assms
    by (cases "offsetLeft (elements s el)"; cases "width (popper state)") auto
  moreover have "js_sub x NaN = NaN" for x
    by (cases x) (simp_all add: js_sub_def)
  ultimately show ?thesis
    by (simp add: Let_def)
qed

text \<open>
  C8. With a window object, a \<open>this\<close> whose \<open>_nativeElement\<close> is an element, and a
  configuration that has a modifiers array (empty or not), the call throws nothing and
  returns the reference it was given, whatever \<open>innerWidth\<close> holds (a number, \<open>NaN\<close>,
  \<open>undefined\<close>); and when it has pushed a callback, every call of that callback, in any
  later store and with any layout state, throws nothing and returns a pair, whatever
  \<open>offsetLeft\<close> and \<open>popper.width\<close> hold.
\<close>

theorem no_exception:
  assumes "window s = Window w" and "modifiers (configs s config) = Some a"
  shows "fst (popperOptionsWithAutoOffset (ThisObject (Some el)) config s) = Inr config \<and>
         (js_lt w (Fin 400) \<longrightarrow>
            (\<exists>f. last_offset_fn config
                    (snd (popperOptionsWithAutoOffset (ThisObject (Some el)) config s)) = Some f \<and>
                 (\<forall>state s1. \<exists>p. offset f state s1 = (Inr p, s1))))"
proof (intro conjI impI)
  show "fst (popperOptionsWithAutoOffset (ThisObject (Some el)) config s) = Inr config"
    using assms by (simp add: popperOptionsWithAutoOffset_def read_innerWidth_def)
next
  assume lt: "js_lt w (Fin 400)"
  have "\<exists>p. offset (OffsetClosure w (Some el)) state s1 = (Inr p, s1)" for state s1
    by (simp add: Let_def)
  with narrow_last_offset_fn [OF assms(1) lt assms(2), of "Some el"]
  show "\<exists>f. last_offset_fn config
          (snd (popperOptionsWithAutoOffset (ThisObject (Some el)) config s)) = Some f \<and>
        (\<forall>state s1. \<exists>p. offset f state s1 = (Inr p, s1))"
    by blast
qed

text \<open>
  The call on the window of width 300 returns, and its callback returns a pair wherever
  it is called; with \<open>innerWidth = NaN\<close> the call returns too.
\<close>

theorem no_exception_witness:
  "fst (popperOptionsWithAutoOffset (ThisObject (Some 0)) 0 (test_world 300)) = Inr 0 \<and>
   (\<exists>f. last_offset_fn 0
           (snd (popperOptionsWithAutoOffset (ThisObject (Some 0)) 0 (test_world 300))) = Some f \<and>
        (\<forall>state s1. \<exists>p. offset f state s1 = (Inr p, s1))) \<and>
   fst (popperOptionsWithAutoOffset (ThisObject (Some 0)) 0 (set_innerWidth NaN (test_world 300))) =
     Inr 0"
  using
    no_exception [of "test_world 300" "Fin 300" 0 0 0]
    no_exception [of "set_innerWidth NaN (test_world 300)" NaN 0 0 0]
  by (simp add: test_world_def set_innerWidth_def)

text \<open>
  C9, as the code has it. When \<open>window\<close> is bound (to the window object, to \<open>null\<close> or
  to \<open>undefined\<close>), so that line 6 reads a width, and that width is \<open>undefined\<close> (a
  nullish \<open>window\<close>, or a window object without \<open>innerWidth\<close>) or \<open>NaN\<close>, the
  comparison with 400 is false: the call pushes nothing, returns the reference it was
  given and leaves the store as it was, whatever \<open>this\<close> and the configuration are.
\<close>

theorem undefined_width_passthrough:
  assumes "read_innerWidth (window s) = Inr w" and "w = Undefined \<or> w = NaN"
  shows "popperOptionsWithAutoOffset this config s = (Inr config, s)"
proof (rule wide_branch [OF assms(1)])
  show "\<not> js_lt w (Fin 400)"
    using assms(2) by auto
qed

theorem undefined_width_passthrough_witness:
  "popperOptionsWithAutoOffset ThisUndefined 0 ((test_world 300)\<lparr>window := Nullish\<rparr>) =
     (Inr 0, (test_world 300)\<lparr>window := Nullish\<rparr>) \<and>
   popperOptionsWithAutoOffset ThisUndefined 0 (set_innerWidth NaN (test_world 300)) =
     (Inr 0, set_innerWidth NaN (test_world 300))"
  using
    undefined_width_passthrough [of "(test_world 300)\<lparr>window := Nullish\<rparr>" Undefined
      ThisUndefined 0]
    undefined_width_passthrough [of "set_innerWidth NaN (test_world 300)" NaN ThisUndefined 0]
  by (simp add: read_innerWidth_def set_innerWidth_def)

lemma undeclared_window:
  "window s = Undeclared \<Longrightarrow>
     popperOptionsWithAutoOffset this config s = (Inl ReferenceError, s)"
  by (simp add: popperOptionsWithAutoOffset_def read_innerWidth_def)

text \<open>
  The claim as it is stated takes "no window object is available" as a case of an
  undefined width. Where the identifier \<open>window\<close> is not declared, which is what a
  missing window object is outside a browser, \<open>window?.innerWidth\<close> reads no width: it
  throws a ReferenceError, and the call fails instead of returning the configuration.
\<close>

theorem undeclared_window_counterexample:
  "popperOptionsWithAutoOffset (ThisObject (Some 0)) 0 ((test_world 300)\<lparr>window := Undeclared\<rparr>) =
     (Inl ReferenceError, (test_world 300)\<lparr>window := Undeclared\<rparr>) \<and>
   fst (popperOptionsWithAutoOffset (ThisObject (Some 0)) 0
          ((test_world 300)\<lparr>window := Undeclared\<rparr>)) \<noteq> Inr 0"
  by (simp add: undeclared_window)

text \<open>
  C10. On a window of width \<open>W \<ge> 400\<close> the call does not look at the configuration:
  whatever the configuration objects and the arrays of the store are, it returns the
  reference it was given and leaves the store as it was, also when the configuration has
  no \<open>modifiers\<close>. On a window of width \<open>W < 400\<close> a configuration without
  \<open>modifiers\<close> makes the call throw a TypeError.
\<close>

theorem modifiers_needed_only_when_narrow:
  "(window s = Window (Fin W) \<and> 400 \<le> W \<longrightarrow>
      popperOptionsWithAutoOffset this config (s\<lparr>configs := cs, arrays := ars\<rparr>) =
        (Inr config, s\<lparr>configs := cs, arrays := ars\<rparr>)) \<and>
   (window s = Window (Fin W) \<and> 400 \<le> W \<and> modifiers (configs s config) = None \<longrightarrow>
      popperOptionsWithAutoOffset this config s = (Inr config, s)) \<and>
   (window s = Window (Fin W) \<and> W < 400 \<and> modifiers (configs s config) = None \<longrightarrow>
      popperOptionsWithAutoOffset this config s = (Inl TypeError, s))"
  by (simp add: popperOptionsWithAutoOffset_def read_innerWidth_def
      split: this_binding.split)

text \<open>
  The configuration \<open>{}\<close> (no \<open>modifiers\<close>): returned as it is at width 400, a
  TypeError at width 300.
\<close>

theorem modifiers_needed_only_when_narrow_witness:
  "popperOptionsWithAutoOffset (ThisObject (Some 0)) 0
     ((test_world 400)\<lparr>configs := (\<lambda>_. \<lparr>modifiers = None\<rparr>)\<rparr>) =
     (Inr 0, (test_world 400)\<lparr>configs := (\<lambda>_. \<lparr>modifiers = None\<rparr>)\<rparr>) \<and>
   popperOptionsWithAutoOffset (ThisObject (Some 0)) 0
     ((test_world 300)\<lparr>configs := (\<lambda>_. \<lparr>modifiers = None\<rparr>)\<rparr>) =
     (Inl TypeError, (test_world 300)\<lparr>configs := (\<lambda>_. \<lparr>modifiers = None\<rparr>)\<rparr>)"
  using
    modifiers_needed_only_when_narrow [where
      s = "(test_world 400)\<lparr>configs := (\<lambda>_. \<lparr>modifiers = None\<rparr>)\<rparr>" and W = 400
      and this = "ThisObject (Some 0)" and config = 0
      and cs = "\<lambda>_. \<lparr>modifiers = None\<rparr>" and ars = "\<lambda>_. []"]
    modifiers_needed_only_when_narrow [where
      s = "(test_world 300)\<lparr>configs := (\<lambda>_. \<lparr>modifiers = None\<rparr>)\<rparr>" and W = 300
      and this = "ThisObject (Some 0)" and config = 0
      and cs = "\<lambda>_. \<lparr>modifiers = None\<rparr>" and ars = "\<lambda>_. []"]
  by (simp add: test_world_def)

end
